theory Spec2Isabelle
  imports Main "HOL-Library.Sublist"
begin

section \<open>Python values, exceptions and strings\<close>

text \<open>
  The agents read their inputs from dictionaries whose values are dynamically typed. The
  values that reach a comparison or a string method are modelled by \<open>pyval\<close>: \<open>None\<close>, an
  integer or a string. An operation the interpreter rejects on a value raises; a raise is
  the \<open>Inl\<close> branch of a sum, and every \<open>try/except\<close> of the source is a case
  distinction on it. Strings are ASCII text.
\<close>

datatype pyval = PNone | PInt int | PStr string

datatype exn = AttributeError | TypeError | IntegrityError | OperationalError

definition upper_letters :: string where
  "upper_letters = ''ABCDEFGHIJKLMNOPQRSTUVWXYZ''"

definition lower_letters :: string where
  "lower_letters = ''abcdefghijklmnopqrstuvwxyz''"

definition lower_char :: "char \<Rightarrow> char" where
  "lower_char c = (case map_of (zip upper_letters lower_letters) c of None \<Rightarrow> c | Some d \<Rightarrow> d)"

text \<open>\<open>s.lower()\<close> on a string.\<close>

definition lower :: "string \<Rightarrow> string" where
  "lower s = map lower_char s"

text \<open>\<open>v.lower()\<close> on a value: only a string has the method.\<close>

definition py_lower :: "pyval \<Rightarrow> exn + string" where
  "py_lower v = (case v of PStr s \<Rightarrow> Inr (lower s) | _ \<Rightarrow> Inl AttributeError)"

text \<open>\<open>sub in s\<close> on two strings: \<open>sub\<close> occurs in \<open>s\<close> as a contiguous piece.\<close>

definition str_in :: "string \<Rightarrow> string \<Rightarrow> bool" where
  "str_in sub s = sublist sub s"

text \<open>\<open>any(k in s for k in keywords)\<close>.\<close>

definition any_in :: "string list \<Rightarrow> string \<Rightarrow> bool" where
  "any_in keywords s = list_ex (\<lambda>k. str_in k s) keywords"

text \<open>Truth value of a value in a condition (\<open>if age:\<close>).\<close>

fun truthy :: "pyval \<Rightarrow> bool" where
  "truthy PNone = False"
| "truthy (PInt n) = (n \<noteq> 0)"
| "truthy (PStr s) = (s \<noteq> [])"

text \<open>\<open>v > k\<close> and \<open>v < k\<close> against an integer literal: only a number is comparable.\<close>

fun py_gt :: "pyval \<Rightarrow> int \<Rightarrow> exn + bool" where
  "py_gt (PInt n) k = Inr (n > k)"
| "py_gt _ k = Inl TypeError"

fun py_lt :: "pyval \<Rightarrow> int \<Rightarrow> exn + bool" where
  "py_lt (PInt n) k = Inr (n < k)"
| "py_lt _ k = Inl TypeError"

text \<open>\<open>sep.join(parts)\<close> on strings, and on values (a part that is no string raises).\<close>

fun join :: "string \<Rightarrow> string list \<Rightarrow> string" where
  "join sep [] = []"
| "join sep [x] = x"
| "join sep (x # y # ys) = x @ sep @ join sep (y # ys)"

fun as_strings :: "pyval list \<Rightarrow> exn + string list" where
  "as_strings [] = Inr []"
| "as_strings (PStr s # vs) = (case as_strings vs of Inl e \<Rightarrow> Inl e | Inr ss \<Rightarrow> Inr (s # ss))"
| "as_strings (_ # vs) = Inl TypeError"

definition py_join :: "string \<Rightarrow> pyval list \<Rightarrow> exn + string" where
  "py_join sep vs = (case as_strings vs of Inl e \<Rightarrow> Inl e | Inr ss \<Rightarrow> Inr (join sep ss))"

text \<open>Decimal text of an integer (\<open>str(n)\<close>, and \<open>{n}\<close> in an f-string).\<close>

definition digit_char :: "nat \<Rightarrow> char" where
  "digit_char d = ''0123456789'' ! (d mod 10)"

fun str_nat :: "nat \<Rightarrow> string" where
  "str_nat n = (if n < 10 then [digit_char n] else str_nat (n div 10) @ [digit_char (n mod 10)])"

definition str_int :: "int \<Rightarrow> string" where
  "str_int i = (if i < 0 then CHR ''-'' # str_nat (nat (- i)) else str_nat (nat i))"

fun py_str :: "pyval \<Rightarrow> string" where
  "py_str PNone = ''None''"
| "py_str (PInt n) = str_int n"
| "py_str (PStr s) = s"


section \<open>Data model\<close>

text \<open>
  A symptom observation is the dictionary \<open>{'name', 'mentioned_text', 'confidence'}\<close>.
  \<open>sym_name\<close> is \<open>None\<close> when the key \<open>'name'\<close> is absent. The confidence is the constant
  0.7 and plays no part in any decision.
\<close>

record symptom =
  sym_name :: "pyval option"
  mentioned_text :: string

text \<open>The dictionary returned by \<open>_assess_urgency_indicators\<close>.\<close>

record indicators =
  urgency_level :: string
  high_urgency_indicators :: nat
  medium_urgency_indicators :: nat
  keywords_found :: "string list"

text \<open>
  The patient context read by the triage and escalation agents. A field is \<open>None\<close> when
  its key is absent. \<open>medical_history\<close> holds the text \<open>str(medical_history)\<close>, which is
  all the agents look at; for an absent key it is the text of the empty dictionary.
\<close>

record patient_context =
  age :: "pyval option"
  medical_history :: string
  urgency_indicators :: "indicators option"
  symptoms :: "symptom list option"

definition empty_history :: string where
  "empty_history = ''{}''"

text \<open>The dictionary returned by \<open>assess_urgency\<close>; \<open>triage_error\<close> is set on the fallback path.\<close>

record triage_result =
  urgency_score :: int
  triage_level :: string
  recommended_action :: string
  reasoning :: string
  triage_error :: "exn option"

text \<open>The three sub-checks of the escalation agent and the dictionary it returns.\<close>

record urgency_escalation =
  u_required :: bool
  u_reason :: string
  u_priority :: string

record symptom_escalation =
  s_required :: bool
  s_reason :: string
  s_symptoms :: "string list"

record context_escalation =
  c_required :: bool
  c_reason :: string
  c_factors :: "string list"

datatype escalation_reasons =
  Reasons urgency_escalation symptom_escalation context_escalation
| ReasonsError exn

datatype escalation_instructions = InstructionList "string list" | InstructionText string

record escalation_result =
  required :: bool
  level :: string
  reasons :: escalation_reasons
  instructions :: escalation_instructions
  estimated_wait_time :: string
  provider_type :: "string option"

text \<open>
  The merged response assembled by \<open>process_patient_message\<close>. The knowledge entries come
  from the external search service and are carried as text.
\<close>

record urgency_assessment =
  ua_score :: int
  ua_level :: string
  ua_reasoning :: string
  ua_recommended_action :: string

record medical_knowledge =
  relevant_conditions :: "string list"
  treatment_guidelines :: "string list"
  warning_signs :: "string list"

record response =
  agent_response :: string
  assessment :: urgency_assessment
  knowledge :: medical_knowledge
  escalation :: escalation_result
  next_questions :: "string list"
  conversation_id :: string
  timestamp :: string


section \<open>The record store\<close>

text \<open>
  A Fernet token is opaque at rest; \<open>Encrypted x\<close> stands for the token of \<open>x\<close>. Row
  timestamps are filled in by the database and are not modelled, except for the expiry of a
  session.
\<close>

datatype 'a encrypted = Encrypted 'a

text \<open>
  The expiry of a session reaches the store as a Python \<open>datetime\<close> without a zone: seven
  fields on the wall clock of the caller. The \<open>sqlite3\<close> module binds it as the text
  \<open>isoformat(' ')\<close>, which ends in the six digits of the microseconds unless they are 0.
  \<open>CURRENT_TIMESTAMP\<close> is the text \<open>YYYY-MM-DD HH:MM:SS\<close> of the UTC wall clock. The column
  holds text, and the database compares two texts byte by byte, a proper prefix being
  the smaller.
\<close>

record datetime =
  dt_year :: nat
  dt_month :: nat
  dt_day :: nat
  dt_hour :: nat
  dt_minute :: nat
  dt_second :: nat
  dt_microsecond :: nat

text \<open>\<open>'%0wd' % n\<close>: the decimal digits of \<open>n\<close>, filled with zeros on the left up to the width.\<close>

definition zero_pad :: "nat \<Rightarrow> nat \<Rightarrow> string" where
  "zero_pad width n = replicate (width - length (str_nat n)) (CHR ''0'') @ str_nat n"

definition isoformat_space :: "datetime \<Rightarrow> string" where
  "isoformat_space d =
     zero_pad 4 (dt_year d) @ ''-'' @ zero_pad 2 (dt_month d) @ ''-'' @ zero_pad 2 (dt_day d)
     @ '' '' @ zero_pad 2 (dt_hour d) @ '':'' @ zero_pad 2 (dt_minute d) @ '':''
     @ zero_pad 2 (dt_second d)
     @ (if dt_microsecond d = 0 then [] else ''.'' @ zero_pad 6 (dt_microsecond d))"

text \<open>\<open>CURRENT_TIMESTAMP\<close> when the UTC wall clock shows \<open>utc_now\<close>; the fraction is dropped.\<close>

definition current_timestamp :: "datetime \<Rightarrow> string" where
  "current_timestamp utc_now =
     zero_pad 4 (dt_year utc_now) @ ''-'' @ zero_pad 2 (dt_month utc_now) @ ''-''
     @ zero_pad 2 (dt_day utc_now) @ '' '' @ zero_pad 2 (dt_hour utc_now) @ '':''
     @ zero_pad 2 (dt_minute utc_now) @ '':'' @ zero_pad 2 (dt_second utc_now)"

text \<open>\<open>a < b\<close> on two texts in the database.\<close>

fun text_less :: "string \<Rightarrow> string \<Rightarrow> bool" where
  "text_less [] [] = False"
| "text_less [] (y # ys) = True"
| "text_less (x # xs) [] = False"
| "text_less (x # xs) (y # ys) =
     ((of_char x :: nat) < of_char y \<or> (x = y \<and> text_less xs ys))"

text \<open>Which of two wall-clock readings of one zone is the earlier instant.\<close>

fun fields_less :: "nat list \<Rightarrow> nat list \<Rightarrow> bool" where
  "fields_less (x # xs) (y # ys) = (x < y \<or> (x = y \<and> fields_less xs ys))"
| "fields_less _ _ = False"

definition earlier :: "datetime \<Rightarrow> datetime \<Rightarrow> bool" where
  "earlier a b =
     fields_less
       [dt_year a, dt_month a, dt_day a, dt_hour a, dt_minute a, dt_second a, dt_microsecond a]
       [dt_year b, dt_month b, dt_day b, dt_hour b, dt_minute b, dt_second b, dt_microsecond b]"

record conversation_row =
  cv_conversation_id :: string
  cv_patient_id :: string
  encrypted_user_message :: "string encrypted"
  encrypted_ai_response :: "response encrypted"
  cv_urgency_score :: int
  cv_escalation_triggered :: bool
  agent_workflow :: string
  cv_session_id :: "string option"
  cv_ip_address :: "string option"

record triage_row =
  th_patient_id :: string
  th_conversation_id :: string
  th_symptoms :: string
  th_urgency_score :: int
  th_urgency_level :: string
  th_reasoning :: string
  th_recommended_action :: string
  th_escalation_triggered :: bool

record audit_row =
  au_patient_id :: "string option"
  au_action :: string
  au_details :: "string option"
  au_user_id :: "string option"
  au_ip_address :: "string option"
  au_user_agent :: "string option"
  au_success :: bool

record session_row =
  session_id :: string
  se_patient_id :: string
  session_token :: string
  expires_at :: string
  active :: bool
  se_ip_address :: "string option"
  se_user_agent :: "string option"

record tables =
  conversations :: "conversation_row list"
  triage_history :: "triage_row list"
  audit_log :: "audit_row list"
  sessions :: "session_row list"

text \<open>
  The manager holds one connection. \<open>working\<close> is what a statement on this connection
  sees, uncommitted changes included; \<open>committed\<close> is what every other reader sees.
\<close>

record connection =
  committed :: tables
  working :: tables

definition commit :: "bool \<Rightarrow> connection \<Rightarrow> exn + connection" where
  "commit fails conn =
     (if fails then Inl OperationalError else Inr (conn\<lparr>committed := working conn\<rparr>))"

definition rollback :: "connection \<Rightarrow> connection" where
  "rollback conn = conn\<lparr>working := committed conn\<rparr>"

text \<open>
  The SQL statements. Each takes a flag saying whether the database refuses the statement
  for a reason of its own (a locked or full file); a \<open>UNIQUE\<close> column refuses a duplicate.
\<close>

definition insert_conversation :: "bool \<Rightarrow> conversation_row \<Rightarrow> connection \<Rightarrow> exn + connection" where
  "insert_conversation fails row conn =
     (if fails then Inl OperationalError
      else if cv_conversation_id row \<in> cv_conversation_id ` set (conversations (working conn))
      then Inl IntegrityError
      else Inr (conn\<lparr>working := (working conn)
                  \<lparr>conversations := conversations (working conn) @ [row]\<rparr>\<rparr>))"

definition insert_triage :: "bool \<Rightarrow> triage_row \<Rightarrow> connection \<Rightarrow> exn + connection" where
  "insert_triage fails row conn =
     (if fails then Inl OperationalError
      else Inr (conn\<lparr>working := (working conn)
                  \<lparr>triage_history := triage_history (working conn) @ [row]\<rparr>\<rparr>))"

definition insert_audit :: "bool \<Rightarrow> audit_row \<Rightarrow> connection \<Rightarrow> exn + connection" where
  "insert_audit fails row conn =
     (if fails then Inl OperationalError
      else Inr (conn\<lparr>working := (working conn)
                  \<lparr>audit_log := audit_log (working conn) @ [row]\<rparr>\<rparr>))"

definition insert_session :: "bool \<Rightarrow> session_row \<Rightarrow> connection \<Rightarrow> exn + connection" where
  "insert_session fails row conn =
     (if fails then Inl OperationalError
      else if session_id row \<in> session_id ` set (sessions (working conn))
      then Inl IntegrityError
      else Inr (conn\<lparr>working := (working conn)
                  \<lparr>sessions := sessions (working conn) @ [row]\<rparr>\<rparr>))"

text \<open>
  \<open>log_audit_event\<close>: insert, then commit. A failure of either is logged and swallowed;
  nothing is rolled back.
\<close>

record audit_faults =
  audit_insert_fails :: bool
  audit_commit_fails :: bool

definition log_audit_event ::
  "audit_faults \<Rightarrow> string \<Rightarrow> string option \<Rightarrow> string option \<Rightarrow> string option
     \<Rightarrow> connection \<Rightarrow> connection" where
  "log_audit_event f action patient_id details ip_address conn =
     (case insert_audit (audit_insert_fails f)
             \<lparr>au_patient_id = patient_id, au_action = action, au_details = details,
              au_user_id = None, au_ip_address = ip_address, au_user_agent = None,
              au_success = True\<rparr> conn of
        Inl e \<Rightarrow> conn
      | Inr c1 \<Rightarrow> (case commit (audit_commit_fails f) c1 of Inl e \<Rightarrow> c1 | Inr c2 \<Rightarrow> c2))"


section \<open>Agents\<close>

subsection \<open>What every agent inherits\<close>

text \<open>\<open>symptom.get('name', dflt)\<close>.\<close>

definition get_name :: "symptom \<Rightarrow> string \<Rightarrow> pyval" where
  "get_name s dflt = (case sym_name s of None \<Rightarrow> PStr dflt | Some v \<Rightarrow> v)"

text \<open>
  \<open>_log_interaction\<close> writes one audit row through \<open>log_audit_event\<close> and catches whatever
  goes wrong. \<open>log_entry\<close> is the JSON text of the entry, which carries the clock.
\<close>

definition log_interaction ::
  "audit_faults \<Rightarrow> string \<Rightarrow> string \<Rightarrow> string \<Rightarrow> connection \<Rightarrow> connection" where
  "log_interaction f agent_type patient_id log_entry conn =
     log_audit_event f (agent_type @ ''_interaction'') (Some patient_id) (Some log_entry) None conn"

definition high_urgency_keywords :: "string list" where
  "high_urgency_keywords =
     [''severe'', ''intense'', ''excruciating'', ''unbearable'',
      ''can't breathe'', ''chest pain'', ''crushing'', ''radiating'',
      ''sudden'', ''worst ever'', ''emergency'', ''911'', ''help'']"

definition medium_urgency_keywords :: "string list" where
  "medium_urgency_keywords =
     [''moderate'', ''concerning'', ''worsening'', ''spreading'',
      ''nausea'', ''vomiting'', ''fever'', ''difficulty'']"

definition assess_urgency_indicators :: "string \<Rightarrow> indicators" where
  "assess_urgency_indicators text =
     (let text_lower = lower text;
          high_urgency_count = length (filter (\<lambda>keyword. str_in keyword text_lower) high_urgency_keywords);
          medium_urgency_count = length (filter (\<lambda>keyword. str_in keyword text_lower) medium_urgency_keywords)
      in \<lparr>urgency_level = (if high_urgency_count > 0 then ''high''
                           else if medium_urgency_count > 0 then ''medium'' else ''low''),
          high_urgency_indicators = high_urgency_count,
          medium_urgency_indicators = medium_urgency_count,
          keywords_found = filter (\<lambda>kw. str_in kw text_lower)
                             (high_urgency_keywords @ medium_urgency_keywords)\<rparr>)"


subsection \<open>Triage agent\<close>

definition high_urgency_symptoms :: "string list" where
  "high_urgency_symptoms = [''chest pain'', ''shortness of breath'', ''severe pain'', ''bleeding'']"

definition medium_urgency_symptoms :: "string list" where
  "medium_urgency_symptoms = [''fever'', ''nausea'', ''headache'', ''dizzy'']"

text \<open>The loop of \<open>_calculate_base_urgency\<close> over the symptoms, with the running score.\<close>

fun score_symptoms :: "int \<Rightarrow> symptom list \<Rightarrow> exn + int" where
  "score_symptoms base_score [] = Inr base_score"
| "score_symptoms base_score (s # rest) =
     (case py_lower (get_name s []) of
        Inl e \<Rightarrow> Inl e
      | Inr symptom_name \<Rightarrow>
          score_symptoms
            (if any_in high_urgency_symptoms symptom_name then base_score + 3
             else if any_in medium_urgency_symptoms symptom_name then base_score + 1
             else base_score) rest)"

definition calculate_base_urgency :: "symptom list \<Rightarrow> exn + int" where
  "calculate_base_urgency syms = (if syms = [] then Inr 2 else score_symptoms 3 syms)"

definition triage_high_risk_conditions :: "string list" where
  "triage_high_risk_conditions = [''diabetes'', ''heart disease'', ''hypertension'']"

text \<open>The age branch of \<open>_apply_context_modifiers\<close>: what it adds for \<open>age = a\<close>.\<close>

definition age_modifier :: "pyval \<Rightarrow> exn + int" where
  "age_modifier a =
     (if truthy a then
        (case py_gt a 65 of
           Inl e \<Rightarrow> Inl e
         | Inr elderly \<Rightarrow>
             if elderly then Inr 1
             else (case py_lt a 2 of
                     Inl e \<Rightarrow> Inl e
                   | Inr infant \<Rightarrow> if infant then Inr 2 else Inr 0))
      else Inr 0)"

definition apply_context_modifiers :: "int \<Rightarrow> patient_context \<Rightarrow> exn + int" where
  "apply_context_modifiers base_score ctx =
     (case age_modifier (case age ctx of None \<Rightarrow> PNone | Some v \<Rightarrow> v) of
        Inl e \<Rightarrow> Inl e
      | Inr by_age \<Rightarrow>
          (let modified_score = base_score + by_age;
               modified_score =
                 fold (\<lambda>condition m. if str_in condition (lower (medical_history ctx))
                                       then m + 1 else m)
                      triage_high_risk_conditions modified_score;
               modified_score =
                 (if (case urgency_indicators ctx of None \<Rightarrow> None
                      | Some i \<Rightarrow> Some (urgency_level i)) = Some ''high''
                  then modified_score + 2 else modified_score)
           in Inr modified_score))"

definition get_urgency_level :: "int \<Rightarrow> string" where
  "get_urgency_level score =
     (if score \<ge> 8 then ''critical''
      else if score \<ge> 6 then ''high''
      else if score \<ge> 4 then ''moderate''
      else if score \<ge> 2 then ''low''
      else ''minimal'')"

definition actions :: "(string \<times> string) list" where
  "actions =
     [(''critical'', ''Call 911 immediately or go to emergency room''),
      (''high'', ''Seek immediate medical attention within 2 hours''),
      (''moderate'', ''Contact healthcare provider within 24 hours''),
      (''low'', ''Schedule appointment within 1-2 weeks''),
      (''minimal'', ''Monitor symptoms and consider self-care measures'')]"

definition get_recommended_action :: "int \<Rightarrow> symptom list \<Rightarrow> string" where
  "get_recommended_action score syms =
     (case map_of actions (get_urgency_level score) of
        None \<Rightarrow> ''Consult healthcare provider'' | Some a \<Rightarrow> a)"

definition generate_reasoning :: "symptom list \<Rightarrow> patient_context \<Rightarrow> int \<Rightarrow> exn + string" where
  "generate_reasoning syms ctx score =
     (case (if syms \<noteq> [] then
              (case py_join '', '' (take 3 (map (\<lambda>s. get_name s ''unknown'') syms)) of
                 Inl e \<Rightarrow> Inl e
               | Inr names \<Rightarrow> Inr [''Based on reported symptoms: '' @ names])
            else Inr []) of
        Inl e \<Rightarrow> Inl e
      | Inr by_symptoms \<Rightarrow>
          (case py_gt (case age ctx of None \<Rightarrow> PInt 0 | Some v \<Rightarrow> v) 65 of
             Inl e \<Rightarrow> Inl e
           | Inr elderly \<Rightarrow>
               (let reasoning_parts =
                      by_symptoms
                      @ (if score \<ge> 6 then [''Elevated concern due to symptom severity''] else [])
                      @ (if (case urgency_indicators ctx of None \<Rightarrow> 0
                             | Some i \<Rightarrow> high_urgency_indicators i) > 0
                         then [''High-urgency language detected in patient description'']
                         else [])
                      @ (if elderly then [''Age factor increases risk level''] else []);
                    reasoning_parts =
                      (if reasoning_parts = []
                       then [''Standard assessment based on presented information'']
                       else reasoning_parts)
                in Inr (join ''. '' reasoning_parts @ ''.''))))"

text \<open>The body of the \<open>try\<close> block of \<open>assess_urgency\<close>, up to the returned dictionary.\<close>

definition triage_assessment :: "symptom list \<Rightarrow> patient_context \<Rightarrow> exn + triage_result" where
  "triage_assessment syms ctx =
     (case calculate_base_urgency syms of
        Inl e \<Rightarrow> Inl e
      | Inr base_score \<Rightarrow>
          (case apply_context_modifiers base_score ctx of
             Inl e \<Rightarrow> Inl e
           | Inr modified_score \<Rightarrow>
               (case generate_reasoning syms ctx modified_score of
                  Inl e \<Rightarrow> Inl e
                | Inr text \<Rightarrow>
                    Inr \<lparr>urgency_score = min 10 (max 1 modified_score),
                         triage_level = get_urgency_level modified_score,
                         recommended_action = get_recommended_action modified_score syms,
                         reasoning = text,
                         triage_error = None\<rparr>)))"

text \<open>
  \<open>assess_urgency\<close>: the assessment, logged through the audit trail when it succeeds; the
  \<open>except\<close> branch answers with the default of moderate urgency.
\<close>

definition assess_urgency ::
  "audit_faults \<Rightarrow> string \<Rightarrow> string \<Rightarrow> symptom list \<Rightarrow> patient_context \<Rightarrow> connection
     \<Rightarrow> triage_result \<times> connection" where
  "assess_urgency f log_entry patient_id syms ctx conn =
     (case triage_assessment syms ctx of
        Inr result \<Rightarrow> (result, log_interaction f ''triage'' patient_id log_entry conn)
      | Inl e \<Rightarrow>
          (\<lparr>urgency_score = 5,
            triage_level = ''moderate'',
            recommended_action = ''Contact healthcare provider within 24 hours'',
            reasoning = ''Assessment system error - defaulting to moderate urgency'',
            triage_error = Some e\<rparr>, conn))"



subsection \<open>Escalation agent\<close>

definition check_urgency_escalation :: "int \<Rightarrow> urgency_escalation" where
  "check_urgency_escalation score =
     (if score \<ge> 8 then
        \<lparr>u_required = True,
         u_reason = ''Critical urgency score: '' @ str_int score @ ''/10'',
         u_priority = ''immediate''\<rparr>
      else if score \<ge> 6 then
        \<lparr>u_required = True,
         u_reason = ''High urgency score: '' @ str_int score @ ''/10'',
         u_priority = ''urgent''\<rparr>
      else
        \<lparr>u_required = False,
         u_reason = ''Moderate urgency score: '' @ str_int score @ ''/10'',
         u_priority = ''routine''\<rparr>)"

definition high_priority_symptoms :: "string list" where
  "high_priority_symptoms =
     [''chest pain'', ''shortness of breath'', ''severe pain'',
      ''difficulty breathing'', ''stroke symptoms'', ''heart attack'']"

text \<open>The loop of \<open>_check_symptom_escalation\<close>, with the names collected so far.\<close>

fun collect_escalation_symptoms :: "string list \<Rightarrow> symptom list \<Rightarrow> exn + string list" where
  "collect_escalation_symptoms escalation_symptoms [] = Inr escalation_symptoms"
| "collect_escalation_symptoms escalation_symptoms (s # rest) =
     (case py_lower (get_name s []) of
        Inl e \<Rightarrow> Inl e
      | Inr symptom_name \<Rightarrow>
          collect_escalation_symptoms
            (if any_in high_priority_symptoms symptom_name
             then escalation_symptoms @ [symptom_name] else escalation_symptoms) rest)"

definition check_symptom_escalation :: "symptom list \<Rightarrow> exn + symptom_escalation" where
  "check_symptom_escalation syms =
     (case collect_escalation_symptoms [] syms of
        Inl e \<Rightarrow> Inl e
      | Inr escalation_symptoms \<Rightarrow>
          Inr (if escalation_symptoms \<noteq> [] then
                 \<lparr>s_required = True,
                  s_reason = ''High-priority symptoms detected: '' @ join '', '' escalation_symptoms,
                  s_symptoms = escalation_symptoms\<rparr>
               else
                 \<lparr>s_required = False,
                  s_reason = ''No high-priority symptoms detected'',
                  s_symptoms = []\<rparr>))"

definition escalation_high_risk_conditions :: "string list" where
  "escalation_high_risk_conditions = [''heart disease'', ''diabetes'', ''cancer'', ''immunocompromised'']"

text \<open>\<open>age and (age < 2 or age > 75)\<close>.\<close>

definition age_escalates :: "pyval \<Rightarrow> exn + bool" where
  "age_escalates a =
     (if truthy a then
        (case py_lt a 2 of
           Inl e \<Rightarrow> Inl e
         | Inr infant \<Rightarrow> if infant then Inr True else py_gt a 75)
      else Inr False)"

definition check_context_escalation :: "patient_context \<Rightarrow> exn + context_escalation" where
  "check_context_escalation ctx =
     (let a = (case age ctx of None \<Rightarrow> PNone | Some v \<Rightarrow> v) in
      case age_escalates a of
        Inl e \<Rightarrow> Inl e
      | Inr by_age \<Rightarrow>
          (let symptoms_count = (case symptoms ctx of None \<Rightarrow> 0 | Some l \<Rightarrow> length l);
               escalation_factors =
                 (if by_age then [''Age factor: '' @ py_str a @ '' years''] else [])
                 @ map (\<lambda>condition. ''High-risk condition: '' @ condition)
                     (filter (\<lambda>condition. str_in condition (lower (medical_history ctx)))
                        escalation_high_risk_conditions)
                 @ (if symptoms_count \<ge> 5
                    then [''Multiple symptoms: '' @ str_nat symptoms_count] else [])
           in Inr (if escalation_factors \<noteq> [] then
                     \<lparr>c_required = True,
                      c_reason = ''Context factors: '' @ join ''; '' escalation_factors,
                      c_factors = escalation_factors\<rparr>
                   else
                     \<lparr>c_required = False,
                      c_reason = ''No high-risk context factors'',
                      c_factors = []\<rparr>)))"

text \<open>
  \<open>str(d)\<close> for the dictionary of the symptom sub-check. \<open>py_repr\<close> is \<open>repr\<close> of a string:
  between single quotes, or double quotes when the text has a single quote and no double
  one, with the quote, the backslash and the control characters escaped.
\<close>

definition hex_digits :: string where
  "hex_digits = ''0123456789abcdef''"

definition repr_char :: "char \<Rightarrow> char \<Rightarrow> string" where
  "repr_char quote c =
     (if c = quote \<or> c = CHR 0x5C then [CHR 0x5C, c]
      else if c = CHR 0x09 then [CHR 0x5C, CHR ''t'']
      else if c = CHR 0x0A then [CHR 0x5C, CHR ''n'']
      else if c = CHR 0x0D then [CHR 0x5C, CHR ''r'']
      else if (of_char c :: nat) < 32 \<or> c = CHR 0x7F
      then [CHR 0x5C, CHR ''x'', hex_digits ! ((of_char c :: nat) div 16),
            hex_digits ! ((of_char c :: nat) mod 16)]
      else [c])"

definition py_repr :: "string \<Rightarrow> string" where
  "py_repr s =
     (let quote = (if CHR 0x27 \<in> set s \<and> CHR 0x22 \<notin> set s then CHR 0x22 else CHR 0x27)
      in quote # concat (map (repr_char quote) s) @ [quote])"

definition str_symptom_escalation :: "symptom_escalation \<Rightarrow> string" where
  "str_symptom_escalation d =
     ''{'required': '' @ (if s_required d then ''True'' else ''False'')
     @ '', 'reason': '' @ py_repr (s_reason d)
     @ '', 'symptoms': ['' @ join '', '' (map py_repr (s_symptoms d)) @ '']}''"

text \<open>
  The chest-pain test of \<open>_determine_escalation_level\<close>:
  \<open>'chest pain' in str(symptoms).lower()\<close>, on the dictionary of the symptom sub-check.
\<close>

definition chest_pain_fired :: "symptom_escalation \<Rightarrow> bool" where
  "chest_pain_fired s = str_in ''chest pain'' (lower (str_symptom_escalation s))"

definition determine_escalation_level ::
  "urgency_escalation \<Rightarrow> symptom_escalation \<Rightarrow> context_escalation \<Rightarrow> string" where
  "determine_escalation_level u s c =
     (if u_priority u = ''immediate'' \<or> chest_pain_fired s
      then ''emergency''
      else if u_priority u = ''urgent'' \<or> s_required s then ''urgent''
      else if c_required c then ''priority''
      else ''routine'')"

definition routine_instructions :: "string list" where
  "routine_instructions =
     [''Schedule appointment with healthcare provider'',
      ''Continue current care if any'',
      ''Call if symptoms worsen'',
      ''Follow up within recommended timeframe'']"

definition escalation_instructions_table :: "(string \<times> string list) list" where
  "escalation_instructions_table =
     [(''emergency'',
        [''Call 911 immediately'',
         ''Do not drive yourself to the hospital'',
         ''Stay on the line with emergency dispatcher'',
         ''Have someone stay with you if possible'']),
      (''urgent'',
        [''Go to the nearest emergency department'',
         ''Call ahead if possible to notify them'',
         ''Bring your medication list and ID'',
         ''Have someone drive you or call an ambulance'']),
      (''priority'',
        [''Contact your primary care provider today'',
         ''If unavailable, consider urgent care'',
         ''Monitor symptoms closely'',
         ''Seek immediate care if symptoms worsen'']),
      (''routine'', routine_instructions)]"

definition get_escalation_instructions :: "string \<Rightarrow> symptom list \<Rightarrow> string list" where
  "get_escalation_instructions lvl syms =
     (case map_of escalation_instructions_table lvl of
        Some l \<Rightarrow> l
      | None \<Rightarrow> routine_instructions)"

definition wait_times :: "(string \<times> string) list" where
  "wait_times =
     [(''emergency'', ''Immediate''), (''urgent'', ''30-60 minutes''),
      (''priority'', ''2-4 hours''), (''routine'', ''1-3 days'')]"

definition estimate_wait_time :: "string \<Rightarrow> string" where
  "estimate_wait_time lvl = (case map_of wait_times lvl of Some w \<Rightarrow> w | None \<Rightarrow> ''Unknown'')"

definition determine_provider_type :: "string \<Rightarrow> symptom list \<Rightarrow> exn + string" where
  "determine_provider_type lvl syms =
     (case py_join '' '' (map (\<lambda>s. get_name s []) syms) of
        Inl e \<Rightarrow> Inl e
      | Inr joined \<Rightarrow>
          (let symptom_names = lower joined in
           Inr (if lvl \<in> set [''emergency'', ''urgent''] then
                  (if str_in ''chest pain'' symptom_names \<or> str_in ''heart'' symptom_names
                   then ''Emergency Department (Cardiology)''
                   else if str_in ''breathing'' symptom_names \<or> str_in ''breath'' symptom_names
                   then ''Emergency Department (Pulmonology)''
                   else ''Emergency Department'')
                else if lvl = ''priority'' then ''Urgent Care or Primary Care''
                else ''Primary Care Provider'')))"

definition empty_context :: patient_context where
  "empty_context =
     \<lparr>age = None, medical_history = empty_history, urgency_indicators = None, symptoms = None\<rparr>"

text \<open>The body of the \<open>try\<close> block of \<open>check_escalation_needed\<close>.\<close>

definition escalation_check ::
  "int \<Rightarrow> symptom list \<Rightarrow> patient_context option \<Rightarrow> exn + escalation_result" where
  "escalation_check score syms ctx =
     (let urgency_escalation = check_urgency_escalation score in
      case check_symptom_escalation syms of
        Inl e \<Rightarrow> Inl e
      | Inr symptom_escalation \<Rightarrow>
          (case check_context_escalation (case ctx of None \<Rightarrow> empty_context | Some c \<Rightarrow> c) of
             Inl e \<Rightarrow> Inl e
           | Inr context_escalation \<Rightarrow>
               (let escalation_required =
                      (u_required urgency_escalation \<or> s_required symptom_escalation
                       \<or> c_required context_escalation);
                    escalation_level =
                      determine_escalation_level urgency_escalation symptom_escalation
                        context_escalation
                in case determine_provider_type escalation_level syms of
                     Inl e \<Rightarrow> Inl e
                   | Inr provider \<Rightarrow>
                       Inr \<lparr>required = escalation_required,
                            level = escalation_level,
                            reasons = Reasons urgency_escalation symptom_escalation
                                        context_escalation,
                            instructions =
                              InstructionList (get_escalation_instructions escalation_level syms),
                            estimated_wait_time = estimate_wait_time escalation_level,
                            provider_type = Some provider\<rparr>)))"

definition check_escalation_needed ::
  "int \<Rightarrow> symptom list \<Rightarrow> patient_context option \<Rightarrow> escalation_result" where
  "check_escalation_needed score syms ctx =
     (case escalation_check score syms ctx of
        Inr result \<Rightarrow> result
      | Inl e \<Rightarrow>
          \<lparr>required = True,
           level = ''urgent'',
           reasons = ReasonsError e,
           instructions = InstructionText ''System error - please contact healthcare provider'',
           estimated_wait_time = ''unknown'',
           provider_type = None\<rparr>)"



subsection \<open>Intake agent\<close>

definition symptom_keywords :: "string list" where
  "symptom_keywords =
     [''pain'', ''hurt'', ''ache'', ''fever'', ''nausea'', ''vomit'', ''dizzy'',
      ''tired'', ''cough'', ''cold'', ''headache'', ''chest pain'', ''shortness of breath'',
      ''rash'', ''swelling'', ''bleeding'', ''trouble breathing'']"

definition extract_symptoms :: "string \<Rightarrow> symptom list" where
  "extract_symptoms message =
     (let message_lower = lower message in
      map (\<lambda>keyword. \<lparr>sym_name = Some (PStr keyword), mentioned_text = message\<rparr>)
        (filter (\<lambda>keyword. str_in keyword message_lower) symptom_keywords))"

text \<open>\<open>symptom['name']\<close> used as a string: a missing key or another value raises.\<close>

definition name_of :: "symptom \<Rightarrow> exn + string" where
  "name_of s = (case sym_name s of Some (PStr n) \<Rightarrow> Inr n | _ \<Rightarrow> Inl TypeError)"

fun follow_up_for :: "string list \<Rightarrow> symptom list \<Rightarrow> exn + string list" where
  "follow_up_for questions [] = Inr questions"
| "follow_up_for questions (s # rest) =
     (case name_of s of
        Inl e \<Rightarrow> Inl e
      | Inr n \<Rightarrow>
          follow_up_for
            (if str_in ''pain'' n
             then questions @ [''Can you describe the type of pain - sharp, dull, throbbing?'']
             else if str_in ''fever'' n
             then questions @ [''Have you taken your temperature? If so, what was it?'']
             else questions) rest)"

definition generate_follow_up_questions :: "symptom list \<Rightarrow> exn + string list" where
  "generate_follow_up_questions syms =
     (if syms = [] then Inr [''Can you describe what symptoms you're experiencing?'']
      else (case follow_up_for
                   [''On a scale of 1-10, how would you rate your discomfort?'',
                    ''How long have you been experiencing these symptoms?'',
                    ''Have you taken any medications for this?''] syms of
              Inl e \<Rightarrow> Inl e
            | Inr questions \<Rightarrow> Inr (take 3 questions)))"

text \<open>
  The request context: of its keys only \<open>medical_history\<close> reaches the agents, as the text
  \<open>str\<close> gives it; the rest goes into the prompt of the text generator. An empty context
  is \<open>None\<close>.
\<close>

record request_context =
  rc_medical_history :: "string option"

record intake_response =
  intake_text :: string
  extracted_symptoms :: "symptom list"
  intake_context :: patient_context
  follow_up_questions :: "string list"
  intake_conversation_id :: string
  intake_urgency_level :: string

text \<open>
  \<open>process_message\<close> of the intake agent. \<open>ai_response\<close> is the text the generator gave (or
  its fallback text), \<open>new_id\<close> the conversation id drawn in \<open>_format_medical_response\<close>.
  \<open>Inl\<close> stands for the apology the \<open>except\<close> branch returns, which has none of the keys.
\<close>

definition process_message ::
  "string \<Rightarrow> string \<Rightarrow> string \<Rightarrow> string \<Rightarrow> request_context option \<Rightarrow> exn + intake_response" where
  "process_message ai_response new_id patient_id message context =
     (let syms = extract_symptoms message;
          ind = assess_urgency_indicators message;
          ctx = \<lparr>age = None,
                 medical_history =
                   (case context of
                      None \<Rightarrow> empty_history
                    | Some c \<Rightarrow> (case rc_medical_history c of
                                   None \<Rightarrow> empty_history | Some h \<Rightarrow> h)),
                 urgency_indicators = Some ind,
                 symptoms = Some syms\<rparr>
      in case generate_follow_up_questions syms of
           Inl e \<Rightarrow> Inl e
         | Inr questions \<Rightarrow>
             Inr \<lparr>intake_text = ai_response,
                  extracted_symptoms = syms,
                  intake_context = ctx,
                  follow_up_questions = questions,
                  intake_conversation_id = new_id,
                  intake_urgency_level = urgency_level ind\<rparr>)"


section \<open>Storing conversations and sessions\<close>

record store_faults =
  conversation_insert_fails :: bool
  triage_insert_fails :: bool
  store_commit_fails :: bool
  store_audit :: audit_faults

text \<open>
  \<open>store_conversation\<close>: both inserts and the commit run inside the \<open>try\<close>; the \<open>except\<close>
  branch rolls back and returns \<open>False\<close>. The audit event is written after the commit.
  The merged response has no \<open>agent_workflow\<close> key and its assessment no \<open>symptoms\<close> key,
  so the defaults of the two \<open>get\<close> calls are stored.
\<close>

definition store_conversation ::
  "store_faults \<Rightarrow> string \<Rightarrow> string \<Rightarrow> string \<Rightarrow> response \<Rightarrow> int \<Rightarrow> string option
     \<Rightarrow> string option \<Rightarrow> connection \<Rightarrow> bool \<times> connection" where
  "store_conversation f patient_id conv_id user_message ai_response score sess ip_address conn =
     (let escalation_triggered = required (escalation ai_response) in
      case insert_conversation (conversation_insert_fails f)
             \<lparr>cv_conversation_id = conv_id, cv_patient_id = patient_id,
              encrypted_user_message = Encrypted user_message,
              encrypted_ai_response = Encrypted ai_response,
              cv_urgency_score = score, cv_escalation_triggered = escalation_triggered,
              agent_workflow = ''{}'', cv_session_id = sess, cv_ip_address = ip_address\<rparr>
             conn of
        Inl e \<Rightarrow> (False, rollback conn)
      | Inr c1 \<Rightarrow>
          (case insert_triage (triage_insert_fails f)
                  \<lparr>th_patient_id = patient_id, th_conversation_id = conv_id,
                   th_symptoms = ''[]'', th_urgency_score = score,
                   th_urgency_level = ua_level (assessment ai_response),
                   th_reasoning = ua_reasoning (assessment ai_response),
                   th_recommended_action = ua_recommended_action (assessment ai_response),
                   th_escalation_triggered = escalation_triggered\<rparr> c1 of
             Inl e \<Rightarrow> (False, rollback c1)
           | Inr c2 \<Rightarrow>
               (case commit (store_commit_fails f) c2 of
                  Inl e \<Rightarrow> (False, rollback c2)
                | Inr c3 \<Rightarrow>
                    (True,
                     log_audit_event (store_audit f) ''conversation_stored'' (Some patient_id)
                       (Some (''Conversation '' @ conv_id @ '' stored'')) ip_address c3))))"

text \<open>
  \<open>create_session\<close>: the session id is drawn by the caller of the model, and the expiry is
  stored as the text of the \<open>datetime\<close> it was given. A failure is raised again, without a
  rollback, so the connection is returned on both branches.
\<close>

record session_faults =
  session_insert_fails :: bool
  session_commit_fails :: bool
  session_audit :: audit_faults

definition create_session ::
  "session_faults \<Rightarrow> string \<Rightarrow> string \<Rightarrow> string \<Rightarrow> datetime \<Rightarrow> string option
     \<Rightarrow> string option \<Rightarrow> connection \<Rightarrow> (exn + string) \<times> connection" where
  "create_session f new_session_id patient_id token expiry ip_address agent conn =
     (case insert_session (session_insert_fails f)
             \<lparr>session_id = new_session_id, se_patient_id = patient_id, session_token = token,
              expires_at = isoformat_space expiry, active = True,
              se_ip_address = ip_address,
              se_user_agent = agent\<rparr> conn of
        Inl e \<Rightarrow> (Inl e, conn)
      | Inr c1 \<Rightarrow>
          (case commit (session_commit_fails f) c1 of
             Inl e \<Rightarrow> (Inl e, c1)
           | Inr c2 \<Rightarrow>
               (Inr new_session_id,
                log_audit_event (session_audit f) ''session_created'' (Some patient_id)
                  (Some (''New session created: '' @ new_session_id)) ip_address c2)))"

text \<open>
  \<open>verify_session\<close> when the UTC wall clock shows \<open>utc_now\<close>: some row of the patient with
  this token is active and its stored expiry is greater, as text, than
  \<open>CURRENT_TIMESTAMP\<close>. A failing query answers \<open>False\<close>.
\<close>

definition verify_session :: "bool \<Rightarrow> string \<Rightarrow> string \<Rightarrow> datetime \<Rightarrow> connection \<Rightarrow> bool" where
  "verify_session query_fails patient_id token utc_now conn =
     (if query_fails then False
      else list_ex (\<lambda>s. se_patient_id s = patient_id \<and> session_token s = token
                          \<and> active s \<and> text_less (current_timestamp utc_now) (expires_at s))
             (sessions (working conn)))"

record cleanup_faults =
  update_fails :: bool
  cleanup_commit_fails :: bool

definition expire_sessions :: "datetime \<Rightarrow> connection \<Rightarrow> connection" where
  "expire_sessions utc_now conn =
     conn\<lparr>working := (working conn)
       \<lparr>sessions := map (\<lambda>s. if text_less (expires_at s) (current_timestamp utc_now) \<and> active s
                             then s\<lparr>active := False\<rparr> else s)
                      (sessions (working conn))\<rparr>\<rparr>"

definition cleanup_expired_sessions ::
  "cleanup_faults \<Rightarrow> datetime \<Rightarrow> connection \<Rightarrow> connection" where
  "cleanup_expired_sessions f utc_now conn =
     (if update_fails f then conn
      else (case commit (cleanup_commit_fails f) (expire_sessions utc_now conn) of
              Inl e \<Rightarrow> expire_sessions utc_now conn
            | Inr c \<Rightarrow> c))"


section \<open>The message pipeline\<close>

text \<open>
  What the handler of \<open>/api/chat/message\<close> takes from outside the core: the generated text,
  the fresh conversation id, the knowledge summary, the clock, and which statements of the
  store fail.
\<close>

record environment =
  generated_text :: string
  fresh_conversation_id :: string
  knowledge_result :: medical_knowledge
  triage_log_entry :: string
  response_timestamp :: string
  triage_audit :: audit_faults
  storing :: store_faults

datatype http_body = Json response | ErrorBody string

definition process_patient_message ::
  "environment \<Rightarrow> string option \<Rightarrow> string \<Rightarrow> request_context option \<Rightarrow> connection
     \<Rightarrow> (http_body \<times> nat) \<times> connection" where
  "process_patient_message env session_patient message context conn =
     (case session_patient of
        None \<Rightarrow> ((ErrorBody ''No active session'', 401), conn)
      | Some patient_id \<Rightarrow>
          if patient_id = [] then ((ErrorBody ''No active session'', 401), conn)
          else if message = [] then ((ErrorBody ''Message is required'', 400), conn)
          else
            (case process_message (generated_text env) (fresh_conversation_id env)
                    patient_id message context of
               Inl e \<Rightarrow> ((ErrorBody ''Failed to process message'', 500), conn)
             | Inr intake \<Rightarrow>
                 (let (triage_result, c1) =
                        assess_urgency (triage_audit env) (triage_log_entry env) patient_id
                          (extracted_symptoms intake) (intake_context intake) conn;
                      escalation_needed =
                        check_escalation_needed (urgency_score triage_result)
                          (extracted_symptoms intake) (Some (intake_context intake));
                      response =
                        \<lparr>agent_response = intake_text intake,
                         assessment =
                           \<lparr>ua_score = urgency_score triage_result,
                            ua_level = triage_level triage_result,
                            ua_reasoning = reasoning triage_result,
                            ua_recommended_action = recommended_action triage_result\<rparr>,
                         knowledge = knowledge_result env,
                         escalation = escalation_needed,
                         next_questions = follow_up_questions intake,
                         conversation_id = intake_conversation_id intake,
                         timestamp = response_timestamp env\<rparr>;
                      (stored, c2) =
                        store_conversation (storing env) patient_id (conversation_id response)
                          message response (urgency_score triage_result) None None c1
                  in ((Json response, 200), c2))))"

text \<open>
  Text that \<open>repr\<close> leaves as it is: printable ASCII without quotes and backslash.
\<close>

definition plain_char :: "char \<Rightarrow> bool" where
  "plain_char c \<longleftrightarrow> 32 \<le> (of_char c :: nat) \<and> (of_char c :: nat) < 127
                    \<and> c \<noteq> CHR 0x27 \<and> c \<noteq> CHR 0x22 \<and> c \<noteq> CHR 0x5C"

definition plain_text :: "string \<Rightarrow> bool" where
  "plain_text s = list_all plain_char s"

text \<open>An empty store and a fault-free run, for the concrete runs below.\<close>

definition empty_tables :: tables where
  "empty_tables = \<lparr>conversations = [], triage_history = [], audit_log = [], sessions = []\<rparr>"

definition empty_connection :: connection where
  "empty_connection = \<lparr>committed = empty_tables, working = empty_tables\<rparr>"

definition no_audit_faults :: audit_faults where
  "no_audit_faults = \<lparr>audit_insert_fails = False, audit_commit_fails = False\<rparr>"

definition no_store_faults :: store_faults where
  "no_store_faults =
     \<lparr>conversation_insert_fails = False, triage_insert_fails = False,
      store_commit_fails = False, store_audit = no_audit_faults\<rparr>"


definition chest_pain_observation :: symptom where
  "chest_pain_observation =
     \<lparr>sym_name = Some (PStr ''Chest Pain''), mentioned_text = ''chest pain since noon''\<rparr>"

definition headache_observation :: symptom where
  "headache_observation =
     \<lparr>sym_name = Some (PStr ''headache''), mentioned_text = ''a mild headache''\<rparr>"

definition elderly_context :: patient_context where
  "elderly_context =
     \<lparr>age = Some (PInt 70),
      medical_history = ''{'notes': 'Diabetes, hypertension'}'',
      urgency_indicators =
        Some \<lparr>urgency_level = ''high'', high_urgency_indicators = 1,
              medium_urgency_indicators = 0, keywords_found = [''severe'']\<rparr>,
      symptoms = None\<rparr>"



definition chest_pain_message :: string where
  "chest_pain_message = ''I have severe chest pain and can't breathe''"

definition chest_pain_symptoms :: "symptom list" where
  "chest_pain_symptoms =
     [\<lparr>sym_name = Some (PStr ''pain''), mentioned_text = chest_pain_message\<rparr>,
      \<lparr>sym_name = Some (PStr ''chest pain''), mentioned_text = chest_pain_message\<rparr>]"

definition chest_pain_context :: patient_context where
  "chest_pain_context =
     \<lparr>age = None, medical_history = ''{}'',
      urgency_indicators =
        Some \<lparr>urgency_level = ''high'', high_urgency_indicators = 3,
              medium_urgency_indicators = 0,
              keywords_found = [''severe'', ''can't breathe'', ''chest pain'']\<rparr>,
      symptoms = Some chest_pain_symptoms\<rparr>"




definition chest_pain_check :: symptom_escalation where
  "chest_pain_check =
     \<lparr>s_required = True, s_reason = ''High-priority symptoms detected: chest pain'',
      s_symptoms = [''chest pain'']\<rparr>"

definition quiet_context_check :: context_escalation where
  "quiet_context_check =
     \<lparr>c_required = False, c_reason = ''No high-risk context factors'', c_factors = []\<rparr>"

definition headache_message :: string where
  "headache_message = ''I have a mild headache''"

definition headache_response :: response where
  "headache_response =
     \<lparr>agent_response = ''Thank you for telling me. How long has it lasted?'',
      assessment =
        \<lparr>ua_score = 4, ua_level = ''moderate'',
         ua_reasoning = ''Based on reported symptoms: ache, headache.'',
         ua_recommended_action = ''Contact healthcare provider within 24 hours''\<rparr>,
      knowledge =
        \<lparr>relevant_conditions = [], treatment_guidelines = [], warning_signs = []\<rparr>,
      escalation = check_escalation_needed 4 (extract_symptoms headache_message) None,
      next_questions =
        [''On a scale of 1-10, how would you rate your discomfort?'',
         ''How long have you been experiencing these symptoms?'',
         ''Have you taken any medications for this?''],
      conversation_id = ''intake_1a2b3c4d_1700000000'',
      timestamp = ''2024-01-01T10:00:00''\<rparr>"

definition triage_insert_lost :: store_faults where
  "triage_insert_lost = no_store_faults\<lparr>triage_insert_fails := True\<rparr>"

definition audit_insert_lost :: store_faults where
  "audit_insert_lost =
     no_store_faults\<lparr>store_audit := \<lparr>audit_insert_fails = True, audit_commit_fails = False\<rparr>\<rparr>"

definition locked_store_environment :: environment where
  "locked_store_environment =
     \<lparr>generated_text = ''Thank you for telling me. How long has it lasted?'',
      fresh_conversation_id = ''intake_1a2b3c4d_1700000000'',
      knowledge_result =
        \<lparr>relevant_conditions = [], treatment_guidelines = [], warning_signs = []\<rparr>,
      triage_log_entry = ''{}'',
      response_timestamp = ''2024-01-01T10:00:00'',
      triage_audit = no_audit_faults,
      storing = no_store_faults\<lparr>conversation_insert_fails := True\<rparr>\<rparr>"

definition no_session_faults :: session_faults where
  "no_session_faults =
     \<lparr>session_insert_fails = False, session_commit_fails = False,
      session_audit = no_audit_faults\<rparr>"

definition no_cleanup_faults :: cleanup_faults where
  "no_cleanup_faults = \<lparr>update_fails = False, cleanup_commit_fails = False\<rparr>"

text \<open>
  A session that expires half a second after noon UTC on 1 January 2024, created on a host
  whose wall clock is UTC, and the UTC wall clock three tenths of a second later.
\<close>

definition utc_expiry :: datetime where
  "utc_expiry =
     \<lparr>dt_year = 2024, dt_month = 1, dt_day = 1, dt_hour = 12, dt_minute = 0, dt_second = 0,
      dt_microsecond = 500000\<rparr>"

definition utc_after_expiry :: datetime where
  "utc_after_expiry =
     \<lparr>dt_year = 2024, dt_month = 1, dt_day = 1, dt_hour = 12, dt_minute = 0, dt_second = 0,
      dt_microsecond = 800000\<rparr>"

definition utc_session_store :: connection where
  "utc_session_store =
     snd (create_session no_session_faults ''session-1'' ''patient-1'' ''token-1'' utc_expiry
            None None empty_connection)"

text \<open>
  A session that expires at noon UTC on that day, created on a host at UTC+9, whose own wall
  clock shows 21:00 at that instant; and the UTC wall clock one second after the expiry.
\<close>

definition tokyo_expiry :: datetime where
  "tokyo_expiry =
     \<lparr>dt_year = 2024, dt_month = 1, dt_day = 1, dt_hour = 21, dt_minute = 0, dt_second = 0,
      dt_microsecond = 0\<rparr>"

definition utc_second_after_noon :: datetime where
  "utc_second_after_noon =
     \<lparr>dt_year = 2024, dt_month = 1, dt_day = 1, dt_hour = 12, dt_minute = 0, dt_second = 1,
      dt_microsecond = 0\<rparr>"

definition tokyo_session_store :: connection where
  "tokyo_session_store =
     snd (create_session no_session_faults ''session-2'' ''patient-2'' ''token-2'' tokyo_expiry
            None None empty_connection)"

text \<open>
  The same expiry handed over by a host at UTC-5, whose wall clock shows 07:00 at noon UTC;
  and the UTC wall clock one second before the expiry.
\<close>

definition new_york_expiry :: datetime where
  "new_york_expiry =
     \<lparr>dt_year = 2024, dt_month = 1, dt_day = 1, dt_hour = 7, dt_minute = 0, dt_second = 0,
      dt_microsecond = 0\<rparr>"

definition utc_second_before_noon :: datetime where
  "utc_second_before_noon =
     \<lparr>dt_year = 2024, dt_month = 1, dt_day = 1, dt_hour = 11, dt_minute = 59, dt_second = 59,
      dt_microsecond = 0\<rparr>"

definition new_york_session_store :: connection where
  "new_york_session_store =
     snd (create_session no_session_faults ''session-3'' ''patient-3'' ''token-3''
            new_york_expiry None None empty_connection)"


section \<open>The context modifiers as the specification words them\<close>




section \<open>Properties of the triage agent\<close>

lemmas string_eval =
  str_in_def any_in_def lower_def lower_char_def upper_letters_def lower_letters_def
  sublist_Cons_right

lemma fold_count:
  "fold (\<lambda>c (m::int). if P c then m + 1 else m) cs b = b + int (length (filter P cs))"
  by (induction cs arbitrary: b) auto

lemma triage_assessment_range:
  "triage_assessment syms ctx = Inr r \<Longrightarrow> 1 \<le> urgency_score r \<and> urgency_score r \<le> 10"
  by (auto simp: triage_assessment_def split: sum.splits)

text \<open>
  C1. Whatever the symptoms and the context, the score \<open>assess_urgency\<close> returns lies
  between 1 and 10: the normal path clamps the modified score, the fallback path returns 5.
\<close>

theorem assess_urgency_score_range:
  "1 \<le> urgency_score (fst (assess_urgency f log_entry patient_id syms ctx conn))
   \<and> urgency_score (fst (assess_urgency f log_entry patient_id syms ctx conn)) \<le> 10"
  by (auto simp: assess_urgency_def dest: triage_assessment_range split: sum.splits)

text \<open>Both paths exist: a symptom whose name is \<open>None\<close> sends the agent to its fallback.\<close>

lemma assess_urgency_fallback_run:
  "urgency_score (fst (assess_urgency no_audit_faults [] ''p1''
      [\<lparr>sym_name = Some PNone, mentioned_text = []\<rparr>] empty_context empty_connection)) = 5"
  by (simp add: assess_urgency_def triage_assessment_def calculate_base_urgency_def
        get_name_def py_lower_def)

lemma score_symptoms_append:
  "score_symptoms b (syms @ [h]) =
     (case score_symptoms b syms of Inl e \<Rightarrow> Inl e | Inr v \<Rightarrow> score_symptoms v [h])"
  by (induction syms arbitrary: b) (auto split: sum.splits)

lemma score_symptoms_names:
  "score_symptoms b syms = Inr v \<Longrightarrow> s \<in> set syms \<Longrightarrow> \<exists>n. get_name s d = PStr n"
proof (induction syms arbitrary: b)
  case Nil
  then show ?case by simp
next
  case (Cons a syms)
  then show ?case
    by (auto simp: py_lower_def get_name_def split: sum.splits pyval.splits option.splits)
qed

lemma as_strings_ok:
  "\<forall>v \<in> set vs. \<exists>n. v = PStr n \<Longrightarrow> \<exists>ss. as_strings vs = Inr ss"
  by (induction vs rule: as_strings.induct) auto

lemma score_high_symptom:
  assumes "sym_name h = Some (PStr n)" and "any_in high_urgency_symptoms (lower n)"
  shows "score_symptoms v [h] = Inr (v + 3)"
  using assms by (simp add: get_name_def py_lower_def)

lemma base_urgency_append:
  assumes "sym_name h = Some (PStr n)" and "any_in high_urgency_symptoms (lower n)"
  shows "calculate_base_urgency (syms @ [h]) =
           (case calculate_base_urgency syms of
              Inl e \<Rightarrow> Inl e
            | Inr v \<Rightarrow> Inr (if syms = [] then 6 else v + 3))"
proof (cases "syms = []")
  case True
  then show ?thesis
    using score_high_symptom [OF assms, of 3] by (simp add: calculate_base_urgency_def)
next
  case False
  then show ?thesis
    using score_high_symptom [OF assms]
    by (simp add: calculate_base_urgency_def score_symptoms_append split: sum.splits)
qed

lemma modifiers_shift:
  "apply_context_modifiers b ctx =
     (case apply_context_modifiers 0 ctx of Inl e \<Rightarrow> Inl e | Inr d \<Rightarrow> Inr (b + d))"
  by (simp add: apply_context_modifiers_def fold_count Let_def split: sum.splits)

lemma reasoning_names_ok:
  assumes "calculate_base_urgency syms = Inr v"
  shows "\<exists>t. py_join sep (take 3 (map (\<lambda>s. get_name s d) syms)) = Inr t"
proof -
  have "\<forall>s \<in> set syms. \<exists>n. get_name s d = PStr n"
    using assms score_symptoms_names [of 3 syms v]
    by (auto simp: calculate_base_urgency_def split: if_splits)
  then have "\<forall>x \<in> set (take 3 (map (\<lambda>s. get_name s d) syms)). \<exists>n. x = PStr n"
    by (auto dest!: in_set_takeD)
  from as_strings_ok [OF this] show ?thesis
    by (auto simp: py_join_def)
qed

lemma reasoning_fails_iff:
  assumes "calculate_base_urgency syms = Inr v"
  shows "isl (generate_reasoning syms ctx score) =
           isl (py_gt (case age ctx of None \<Rightarrow> PInt 0 | Some a \<Rightarrow> a) 65)"
  using reasoning_names_ok [OF assms, of "'', ''" "''unknown''"]
  by (auto simp: generate_reasoning_def Let_def split: sum.splits)

text \<open>
  C7. Appending one observation whose name matches the high-urgency set never lowers the
  score \<open>assess_urgency\<close> returns for the same context, whichever path either call takes.
\<close>

theorem assess_urgency_monotone:
  assumes "sym_name h = Some (PStr n)" and "any_in high_urgency_symptoms (lower n)"
  shows "urgency_score (fst (assess_urgency f log_entry patient_id syms ctx conn))
         \<le> urgency_score (fst (assess_urgency f' log_entry' patient_id' (syms @ [h]) ctx conn'))"
proof (cases "calculate_base_urgency syms")
  case (Inl e)
  then show ?thesis
    by (simp add: assess_urgency_def triage_assessment_def base_urgency_append [OF assms])
next
  case (Inr v)
  define v' where "v' = (if syms = [] then 6 else v + 3)"
  have base': "calculate_base_urgency (syms @ [h]) = Inr v'"
    by (simp add: base_urgency_append [OF assms] Inr v'_def)
  have "v = 2" if "syms = []"
    using Inr that by (simp add: calculate_base_urgency_def)
  then have le: "v \<le> v'"
    by (auto simp: v'_def)
  show ?thesis
  proof (cases "apply_context_modifiers 0 ctx")
    case (Inl e)
    then show ?thesis
      using Inr base'
      by (simp add: assess_urgency_def triage_assessment_def modifiers_shift [of v]
            modifiers_shift [of v'])
  next
    case d: (Inr d)
    have r: "isl (generate_reasoning syms ctx (v + d))
             = isl (generate_reasoning (syms @ [h]) ctx (v' + d))"
      by (simp add: reasoning_fails_iff [OF Inr] reasoning_fails_iff [OF base'])
    show ?thesis
      using Inr base' d r le
      by (auto simp: assess_urgency_def triage_assessment_def modifiers_shift [of v]
            modifiers_shift [of v'] split: sum.splits)
  qed
qed

theorem assess_urgency_monotone_witness:
  "sym_name chest_pain_observation = Some (PStr ''Chest Pain'')
   \<and> any_in high_urgency_symptoms (lower ''Chest Pain'')
   \<and> urgency_score (fst (assess_urgency no_audit_faults [] ''p1''
         [headache_observation] elderly_context empty_connection))
     \<le> urgency_score (fst (assess_urgency no_audit_faults [] ''p1''
         ([headache_observation] @ [chest_pain_observation]) elderly_context empty_connection))"
proof -
  have h1: "sym_name chest_pain_observation = Some (PStr ''Chest Pain'')"
    by (simp add: chest_pain_observation_def)
  have h2: "any_in high_urgency_symptoms (lower ''Chest Pain'')"
    by (simp add: high_urgency_symptoms_def string_eval)
  from assess_urgency_monotone [OF h1 h2] h1 h2 show ?thesis
    by blast
qed





section \<open>Properties of the escalation agent\<close>









lemma repr_char_plain:
  assumes "plain_char c"
  shows "repr_char (CHR 0x27) c = [c]"
proof -
  have ge: "\<not> (of_char c :: nat) < 32" and lt: "(of_char c :: nat) < 127"
    using assms by (simp_all add: plain_char_def)
  have "c \<noteq> CHR 0x09"
  proof
    assume "c = CHR 0x09"
    then have "(of_char c :: nat) = 9" by simp
    with ge show False by simp
  qed
  moreover have "c \<noteq> CHR 0x0A"
  proof
    assume "c = CHR 0x0A"
    then have "(of_char c :: nat) = 10" by simp
    with ge show False by simp
  qed
  moreover have "c \<noteq> CHR 0x0D"
  proof
    assume "c = CHR 0x0D"
    then have "(of_char c :: nat) = 13" by simp
    with ge show False by simp
  qed
  moreover have "c \<noteq> CHR 0x7F"
  proof
    assume "c = CHR 0x7F"
    then have "(of_char c :: nat) = 127" by simp
    with lt show False by simp
  qed
  moreover have "c \<noteq> CHR 0x27" "c \<noteq> CHR 0x5C"
    using assms by (simp_all add: plain_char_def)
  ultimately show ?thesis
    using ge unfolding repr_char_def by simp
qed

lemma concat_repr_plain:
  "list_all plain_char s \<Longrightarrow> concat (map (repr_char (CHR 0x27)) s) = s"
  by (induction s) (simp_all add: repr_char_plain)

lemma py_repr_plain:
  assumes "plain_text s"
  shows "py_repr s = CHR 0x27 # s @ [CHR 0x27]"
proof -
  have "CHR 0x27 \<notin> set s"
    using assms by (auto simp: plain_text_def plain_char_def list_all_iff)
  then show ?thesis
    using assms by (simp add: py_repr_def plain_text_def concat_repr_plain Let_def)
qed








lemma collect_escalation_symptoms_names:
  "collect_escalation_symptoms acc syms = Inr es \<Longrightarrow> x \<in> set syms
     \<Longrightarrow> \<exists>n. get_name x d = PStr n"
proof (induction syms arbitrary: acc)
  case Nil
  then show ?case by simp
next
  case (Cons a syms)
  then show ?case
    by (auto simp: py_lower_def get_name_def split: sum.splits pyval.splits option.splits)
qed



lemma check_symptom_escalation_fields:
  assumes "check_symptom_escalation syms = Inr s"
  shows "s_required s = (s_symptoms s \<noteq> [])"
    and "s_reason s = (if s_symptoms s \<noteq> []
                       then ''High-priority symptoms detected: '' @ join '', '' (s_symptoms s)
                       else ''No high-priority symptoms detected'')"
  using assms
  by (auto simp: check_symptom_escalation_def split: sum.splits if_splits)


lemma provider_type_defined:
  assumes "check_symptom_escalation syms = Inr s"
  shows "\<exists>p. determine_provider_type lvl syms = Inr p"
proof -
  obtain es where "collect_escalation_symptoms [] syms = Inr es"
    using assms by (auto simp: check_symptom_escalation_def split: sum.splits)
  from collect_escalation_symptoms_names [OF this, of _ "[]"]
  have "\<forall>v \<in> set (map (\<lambda>s. get_name s []) syms). \<exists>n. v = PStr n"
    by auto
  from as_strings_ok [OF this] show ?thesis
    by (auto simp: determine_provider_type_def py_join_def Let_def)
qed

lemma no_symptom_not_fired:
  assumes "\<not> s_required s" and "s_reason s = ''No high-priority symptoms detected''"
    and "s_symptoms s = []"
  shows "\<not> chest_pain_fired s"
proof -
  have "plain_text ''No high-priority symptoms detected''"
    by (simp add: plain_text_def plain_char_def)
  from py_repr_plain [OF this] have
    "str_symptom_escalation s
       = ''{'required': False, 'reason': 'No high-priority symptoms detected', 'symptoms': []}''"
    by (simp add: str_symptom_escalation_def assms)
  then show ?thesis
    by (simp add: chest_pain_fired_def string_eval)
qed

lemma chest_pain_fired_required:
  assumes "check_symptom_escalation syms = Inr s" and "chest_pain_fired s"
  shows "s_required s"
proof (rule ccontr)
  assume n: "\<not> s_required s"
  with check_symptom_escalation_fields [OF assms(1)] have "s_symptoms s = []"
    and "s_reason s = ''No high-priority symptoms detected''"
    by simp_all
  from no_symptom_not_fired [OF n this(2) this(1)] assms(2) show False
    by simp
qed

lemma urgency_priority_required:
  "u_required (check_urgency_escalation score)
     \<longleftrightarrow> u_priority (check_urgency_escalation score) \<noteq> ''routine''"
  "u_required (check_urgency_escalation score)
     \<longleftrightarrow> u_priority (check_urgency_escalation score) = ''immediate''
         \<or> u_priority (check_urgency_escalation score) = ''urgent''"
  by (simp_all add: check_urgency_escalation_def)

lemma escalation_check_result:
  assumes "check_symptom_escalation syms = Inr s"
    and "check_context_escalation (case ctx of None \<Rightarrow> empty_context | Some c \<Rightarrow> c) = Inr c"
  shows "\<exists>r. escalation_check score syms ctx = Inr r
           \<and> required r = (u_required (check_urgency_escalation score) \<or> s_required s \<or> c_required c)
           \<and> level r = determine_escalation_level (check_urgency_escalation score) s c"
proof -
  obtain p where
    "determine_provider_type
       (determine_escalation_level (check_urgency_escalation score) s c) syms = Inr p"
    using provider_type_defined [OF assms(1)] by blast
  then show ?thesis
    by (simp add: escalation_check_def Let_def assms)
qed

lemma escalation_check_cases:
  "(\<exists>e. escalation_check score syms ctx = Inl e)
   \<or> (\<exists>s c. check_symptom_escalation syms = Inr s
         \<and> check_context_escalation (case ctx of None \<Rightarrow> empty_context | Some c \<Rightarrow> c) = Inr c)"
  by (auto simp: escalation_check_def Let_def split: sum.splits)

text \<open>
  C10. In every result of \<open>check_escalation_needed\<close>, the fallback of the \<open>except\<close> branch
  included, \<open>required\<close> is true exactly when the level is not \<open>routine\<close>.
\<close>

theorem escalation_required_iff_not_routine:
  "required (check_escalation_needed score syms ctx)
     \<longleftrightarrow> level (check_escalation_needed score syms ctx) \<noteq> ''routine''"
proof -
  consider e where "escalation_check score syms ctx = Inl e"
    | s c where "check_symptom_escalation syms = Inr s"
        "check_context_escalation (case ctx of None \<Rightarrow> empty_context | Some c \<Rightarrow> c) = Inr c"
    using escalation_check_cases [of score syms ctx] by blast
  then show ?thesis
  proof cases
    case 1
    then show ?thesis
      by (simp add: check_escalation_needed_def)
  next
    case 2
    from escalation_check_result [OF 2, of score] obtain r where
      r: "escalation_check score syms ctx = Inr r"
         "required r = (u_required (check_urgency_escalation score) \<or> s_required s \<or> c_required c)"
         "level r = determine_escalation_level (check_urgency_escalation score) s c"
      by blast
    have fired: "chest_pain_fired s \<longrightarrow> s_required s"
      using chest_pain_fired_required [OF 2(1)] by blast
    have res: "check_escalation_needed score syms ctx = r"
      using r(1) by (simp add: check_escalation_needed_def)
    show ?thesis
      unfolding res r(2) r(3) determine_escalation_level_def
      using fired urgency_priority_required [of score]
      by (cases "chest_pain_fired s"; cases "s_required s"; cases "c_required c";
          cases "u_required (check_urgency_escalation score)") auto
  qed
qed

lemma chest_pain_symptom_check:
  "check_symptom_escalation chest_pain_symptoms = Inr chest_pain_check"
  by (simp add: check_symptom_escalation_def chest_pain_symptoms_def chest_pain_check_def
        high_priority_symptoms_def get_name_def py_lower_def string_eval)

lemma chest_pain_context_check:
  "check_context_escalation
     (case Some chest_pain_context of None \<Rightarrow> empty_context | Some c \<Rightarrow> c)
   = Inr quiet_context_check"
  by (simp add: check_context_escalation_def chest_pain_context_def chest_pain_symptoms_def
        quiet_context_check_def age_escalates_def escalation_high_risk_conditions_def
        string_eval)









section \<open>Properties of the pipeline\<close>

lemma intake_run:
  "process_message text cid pid chest_pain_message None =
     Inr \<lparr>intake_text = text,
          extracted_symptoms = chest_pain_symptoms,
          intake_context = chest_pain_context,
          follow_up_questions =
            [''On a scale of 1-10, how would you rate your discomfort?'',
             ''How long have you been experiencing these symptoms?'',
             ''Have you taken any medications for this?''],
          intake_conversation_id = cid,
          intake_urgency_level = ''high''\<rparr>"
  by (simp add: process_message_def extract_symptoms_def symptom_keywords_def
        assess_urgency_indicators_def high_urgency_keywords_def medium_urgency_keywords_def
        generate_follow_up_questions_def name_of_def empty_history_def
        chest_pain_symptoms_def chest_pain_context_def chest_pain_message_def string_eval
        Let_def)

lemma triage_run:
  "triage_assessment chest_pain_symptoms chest_pain_context =
     Inr \<lparr>urgency_score = 8, triage_level = ''critical'',
          recommended_action = ''Call 911 immediately or go to emergency room'',
          reasoning = ''Based on reported symptoms: pain, chest pain. Elevated concern due to symptom severity. High-urgency language detected in patient description.'',
          triage_error = None\<rparr>"
  by (simp add: triage_assessment_def calculate_base_urgency_def chest_pain_symptoms_def
        chest_pain_context_def get_name_def py_lower_def high_urgency_symptoms_def
        medium_urgency_symptoms_def apply_context_modifiers_def age_modifier_def
        triage_high_risk_conditions_def generate_reasoning_def py_join_def
        get_urgency_level_def get_recommended_action_def actions_def string_eval Let_def)

lemma escalation_run:
  "required (check_escalation_needed 8 chest_pain_symptoms (Some chest_pain_context))
   \<and> level (check_escalation_needed 8 chest_pain_symptoms (Some chest_pain_context))
      = ''emergency''"
proof -
  from escalation_check_result [OF chest_pain_symptom_check chest_pain_context_check, of 8]
  obtain r where
    r: "escalation_check 8 chest_pain_symptoms (Some chest_pain_context) = Inr r"
       "required r = (u_required (check_urgency_escalation 8) \<or> s_required chest_pain_check
                      \<or> c_required quiet_context_check)"
       "level r = determine_escalation_level (check_urgency_escalation 8) chest_pain_check
                    quiet_context_check"
    by blast
  then show ?thesis
    by (simp add: check_escalation_needed_def determine_escalation_level_def
          check_urgency_escalation_def)
qed

text \<open>
  C9. For the message "I have severe chest pain and can't breathe" and an empty context,
  the intake extracts a chest pain symptom and the urgency signal \<open>high\<close>, the triage gives
  a score of at least 8 at level \<open>critical\<close>, and the escalation is required at level
  \<open>emergency\<close>; the handler answers 200 with these in the merged response.
\<close>

theorem severe_chest_pain_pipeline:
  "(\<exists>intake. process_message text cid pid chest_pain_message None = Inr intake
      \<and> Some (PStr ''chest pain'') \<in> sym_name ` set (extracted_symptoms intake)
      \<and> intake_urgency_level intake = ''high''
      \<and> 8 \<le> urgency_score (fst (assess_urgency f log_entry pid (extracted_symptoms intake)
                                    (intake_context intake) conn))
      \<and> triage_level (fst (assess_urgency f log_entry pid (extracted_symptoms intake)
                              (intake_context intake) conn)) = ''critical''
      \<and> required (check_escalation_needed
                    (urgency_score (fst (assess_urgency f log_entry pid
                       (extracted_symptoms intake) (intake_context intake) conn)))
                    (extracted_symptoms intake) (Some (intake_context intake)))
      \<and> level (check_escalation_needed
                 (urgency_score (fst (assess_urgency f log_entry pid
                    (extracted_symptoms intake) (intake_context intake) conn)))
                 (extracted_symptoms intake) (Some (intake_context intake))) = ''emergency'')
   \<and> (\<exists>r. fst (process_patient_message env (Some ''patient-1'') chest_pain_message None conn)
            = (Json r, 200)
        \<and> 8 \<le> ua_score (assessment r) \<and> ua_level (assessment r) = ''critical''
        \<and> required (escalation r) \<and> level (escalation r) = ''emergency'')"
proof -
  have t: "fst (assess_urgency f' le p' chest_pain_symptoms chest_pain_context c')
           = \<lparr>urgency_score = 8, triage_level = ''critical'',
          recommended_action = ''Call 911 immediately or go to emergency room'',
          reasoning = ''Based on reported symptoms: pain, chest pain. Elevated concern due to symptom severity. High-urgency language detected in patient description.'',
          triage_error = None\<rparr>" for f' le p' c'
    by (simp add: assess_urgency_def triage_run)
  have "Some (PStr ''chest pain'') \<in> sym_name ` set chest_pain_symptoms"
    by (simp add: chest_pain_symptoms_def)
  then have stages: "\<exists>intake. process_message text cid pid chest_pain_message None = Inr intake
      \<and> Some (PStr ''chest pain'') \<in> sym_name ` set (extracted_symptoms intake)
      \<and> intake_urgency_level intake = ''high''
      \<and> 8 \<le> urgency_score (fst (assess_urgency f log_entry pid (extracted_symptoms intake)
                                    (intake_context intake) conn))
      \<and> triage_level (fst (assess_urgency f log_entry pid (extracted_symptoms intake)
                              (intake_context intake) conn)) = ''critical''
      \<and> required (check_escalation_needed
                    (urgency_score (fst (assess_urgency f log_entry pid
                       (extracted_symptoms intake) (intake_context intake) conn)))
                    (extracted_symptoms intake) (Some (intake_context intake)))
      \<and> level (check_escalation_needed
                 (urgency_score (fst (assess_urgency f log_entry pid
                    (extracted_symptoms intake) (intake_context intake) conn)))
                 (extracted_symptoms intake) (Some (intake_context intake))) = ''emergency''"
    using escalation_run by (simp add: intake_run t)
  have "\<exists>r. fst (process_patient_message env (Some ''patient-1'') chest_pain_message None conn)
            = (Json r, 200)
        \<and> 8 \<le> ua_score (assessment r) \<and> ua_level (assessment r) = ''critical''
        \<and> required (escalation r) \<and> level (escalation r) = ''emergency''"
    using escalation_run
    by (simp add: process_patient_message_def intake_run split_beta t Let_def
          chest_pain_message_def [symmetric])
       (simp add: chest_pain_message_def)
  with stages show ?thesis
    by blast
qed

lemma follow_up_for_extracted:
  "\<exists>qs'. follow_up_for qs (map (\<lambda>keyword. \<lparr>sym_name = Some (PStr keyword), mentioned_text = m\<rparr>) ks)
           = Inr qs'"
  by (induction ks arbitrary: qs) (simp_all add: name_of_def)

lemma generate_follow_up_questions_total:
  "\<exists>qs. generate_follow_up_questions (extract_symptoms m) = Inr qs"
proof (cases "extract_symptoms m = []")
  case True
  then show ?thesis
    by (simp add: generate_follow_up_questions_def)
next
  case False
  have "\<exists>qs'. follow_up_for
           [''On a scale of 1-10, how would you rate your discomfort?'',
            ''How long have you been experiencing these symptoms?'',
            ''Have you taken any medications for this?''] (extract_symptoms m) = Inr qs'"
    unfolding extract_symptoms_def Let_def by (rule follow_up_for_extracted)
  then obtain qs' where "follow_up_for
           [''On a scale of 1-10, how would you rate your discomfort?'',
            ''How long have you been experiencing these symptoms?'',
            ''Have you taken any medications for this?''] (extract_symptoms m) = Inr qs'"
    by blast
  with False show ?thesis
    by (simp add: generate_follow_up_questions_def)
qed

lemma process_message_total:
  "\<exists>intake. process_message g cid pid m ctx = Inr intake"
proof -
  obtain qs where "generate_follow_up_questions (extract_symptoms m) = Inr qs"
    using generate_follow_up_questions_total by blast
  then show ?thesis
    by (simp add: process_message_def Let_def)
qed

lemma process_patient_message_answers:
  assumes "pid \<noteq> []" and "m \<noteq> []"
  shows "\<exists>r c1. process_patient_message env (Some pid) m ctx conn
           = ((Json r, 200),
              snd (store_conversation (storing env) pid (conversation_id r) m r (ua_score (assessment r))
                     None None c1))
         \<and> (\<exists>t syms tctx. c1 = snd (assess_urgency (triage_audit env) (triage_log_entry env) pid syms tctx conn))"
proof -
  obtain intake where "process_message (generated_text env) (fresh_conversation_id env) pid m ctx = Inr intake"
    using process_message_total by blast
  then show ?thesis
    using assms
    by (auto simp: process_patient_message_def Let_def split_beta)
qed

lemma assess_urgency_conversations:
  "conversations (working (snd (assess_urgency f le pid syms ctx conn))) = conversations (working conn)"
  "triage_history (working (snd (assess_urgency f le pid syms ctx conn))) = triage_history (working conn)"
  "conversations (committed (snd (assess_urgency f le pid syms ctx conn))) = conversations (committed conn)
   \<or> conversations (committed (snd (assess_urgency f le pid syms ctx conn))) = conversations (working conn)"
  "triage_history (committed (snd (assess_urgency f le pid syms ctx conn))) = triage_history (committed conn)
   \<or> triage_history (committed (snd (assess_urgency f le pid syms ctx conn))) = triage_history (working conn)"
  by (auto simp: assess_urgency_def log_interaction_def log_audit_event_def insert_audit_def
        commit_def split: sum.splits)

text \<open>
  C4 fails on the code: when the insert of the conversation is refused, the handler still
  answers 200 with the merged response, and nothing of the interaction is in the store.
\<close>

theorem unpersisted_message_answered_200:
  "conversation_insert_fails (storing locked_store_environment)
   \<and> snd (fst (process_patient_message locked_store_environment (Some ''patient-1'')
                 headache_message None empty_connection)) = 200
   \<and> (\<exists>r. fst (fst (process_patient_message locked_store_environment (Some ''patient-1'')
                 headache_message None empty_connection)) = Json r)
   \<and> conversations (committed (snd (process_patient_message locked_store_environment
         (Some ''patient-1'') headache_message None empty_connection))) = []
   \<and> conversations (working (snd (process_patient_message locked_store_environment
         (Some ''patient-1'') headache_message None empty_connection))) = []
   \<and> triage_history (committed (snd (process_patient_message locked_store_environment
         (Some ''patient-1'') headache_message None empty_connection))) = []"
proof -
  have f: "conversation_insert_fails (storing locked_store_environment)"
    by (simp add: locked_store_environment_def no_store_faults_def)
  have ne: "headache_message \<noteq> []"
    by (simp add: headache_message_def)
  obtain r c1 t syms tctx where
    run: "process_patient_message locked_store_environment (Some ''patient-1'')
                 headache_message None empty_connection
           = ((Json r, 200),
              snd (store_conversation (storing locked_store_environment) ''patient-1''
                     (conversation_id r) headache_message r (ua_score (assessment r))
                     None None c1))"
    and c1: "c1 = snd (assess_urgency (triage_audit locked_store_environment)
                    (triage_log_entry locked_store_environment) ''patient-1'' syms tctx
                    empty_connection)"
    using process_patient_message_answers [OF _ ne, of "''patient-1''"
        locked_store_environment None empty_connection]
    by auto
  have st: "snd (store_conversation (storing locked_store_environment) ''patient-1''
                     (conversation_id r) headache_message r (ua_score (assessment r))
                     None None c1) = rollback c1"
    using f by (simp add: store_conversation_def insert_conversation_def Let_def)
  have "conversations (committed c1) = []" "triage_history (committed c1) = []"
    using assess_urgency_conversations(3,4) [of "triage_audit locked_store_environment"
        "triage_log_entry locked_store_environment" "''patient-1''" syms tctx empty_connection]
    by (auto simp: c1 empty_connection_def empty_tables_def)
  then show ?thesis
    using f by (simp add: run st rollback_def)
qed


section \<open>Properties of the record store\<close>

lemmas store_defs =
  store_conversation_def insert_conversation_def insert_triage_def commit_def Let_def

lemma store_conversation_ok_iff:
  "fst (store_conversation f p cid m r sc se ip conn)
     \<longleftrightarrow> \<not> conversation_insert_fails f
         \<and> cid \<notin> cv_conversation_id ` set (conversations (working conn))
         \<and> \<not> triage_insert_fails f \<and> \<not> store_commit_fails f"
  by (simp add: store_defs)

lemma store_conversation_failed:
  "\<not> fst (store_conversation f p cid m r sc se ip conn)
     \<Longrightarrow> snd (store_conversation f p cid m r sc se ip conn) = rollback conn"
  by (auto simp: store_defs rollback_def split: if_splits)

lemma store_conversation_stored:
  assumes "fst (store_conversation f p cid m r sc se ip conn)"
  shows "\<exists>c. snd (store_conversation f p cid m r sc se ip conn)
               = log_audit_event (store_audit f) ''conversation_stored'' (Some p)
                   (Some (''Conversation '' @ cid @ '' stored'')) ip c
             \<and> committed c = working c
             \<and> cid \<in> cv_conversation_id ` set (conversations (working c))
             \<and> cid \<in> th_conversation_id ` set (triage_history (working c))
             \<and> cv_patient_id ` set (conversations (working c))
                 = insert p (cv_patient_id ` set (conversations (working conn)))
             \<and> audit_log (working c) = audit_log (working conn)"
proof -
  have nf: "\<not> conversation_insert_fails f" "\<not> triage_insert_fails f" "\<not> store_commit_fails f"
    "cid \<notin> cv_conversation_id ` set (conversations (working conn))"
    using assms by (simp_all add: store_conversation_ok_iff)
  show ?thesis
    apply (simp add: store_defs nf)
    apply (rule exI, rule conjI, rule refl)
    apply simp
    done
qed

lemma log_audit_event_keeps:
  "conversations (working (log_audit_event g a p d ip c)) = conversations (working c)"
  "triage_history (working (log_audit_event g a p d ip c)) = triage_history (working c)"
  "sessions (working (log_audit_event g a p d ip c)) = sessions (working c)"
  "committed c = working c \<Longrightarrow>
     conversations (committed (log_audit_event g a p d ip c)) = conversations (working c)"
  "committed c = working c \<Longrightarrow>
     triage_history (committed (log_audit_event g a p d ip c)) = triage_history (working c)"
  by (simp_all add: log_audit_event_def insert_audit_def commit_def)

text \<open>
  C2, as the specification words it, fails: the audit event is no part of the unit. When
  its insert is refused, the call still returns \<open>True\<close>, the conversation and the triage
  row are committed, and the audit log stays empty.
\<close>

theorem store_conversation_unit_counterexample:
  "fst (store_conversation audit_insert_lost ''patient-1'' ''c-1'' headache_message
          headache_response 4 None None empty_connection)
   \<and> cv_conversation_id ` set (conversations (committed (snd
         (store_conversation audit_insert_lost ''patient-1'' ''c-1'' headache_message
            headache_response 4 None None empty_connection)))) = {''c-1''}
   \<and> th_conversation_id ` set (triage_history (committed (snd
         (store_conversation audit_insert_lost ''patient-1'' ''c-1'' headache_message
            headache_response 4 None None empty_connection)))) = {''c-1''}
   \<and> audit_log (working (snd
         (store_conversation audit_insert_lost ''patient-1'' ''c-1'' headache_message
            headache_response 4 None None empty_connection))) = []
   \<and> audit_log (committed (snd
         (store_conversation audit_insert_lost ''patient-1'' ''c-1'' headache_message
            headache_response 4 None None empty_connection))) = []"
  by (simp add: store_defs log_audit_event_def insert_audit_def audit_insert_lost_def
        no_store_faults_def no_audit_faults_def empty_connection_def empty_tables_def)

text \<open>
  C2, amended. \<open>store_conversation\<close> writes the conversation row and the triage row as one
  unit: a refused conversation insert, triage insert or commit makes it return \<open>False\<close>;
  whenever it returns \<open>False\<close> the store is what was last committed before the call, for
  this connection and for every other reader; when it returns \<open>True\<close> both rows are
  committed and visible. The audit event is written after the commit and is outside the unit.
\<close>

theorem store_conversation_atomic:
  "(conversation_insert_fails f \<or> triage_insert_fails f \<or> store_commit_fails f
      \<longrightarrow> \<not> fst (store_conversation f p cid m r sc se ip conn))
   \<and> (\<not> fst (store_conversation f p cid m r sc se ip conn)
        \<longrightarrow> working (snd (store_conversation f p cid m r sc se ip conn)) = committed conn
          \<and> committed (snd (store_conversation f p cid m r sc se ip conn)) = committed conn)
   \<and> (fst (store_conversation f p cid m r sc se ip conn)
        \<longrightarrow> cid \<in> cv_conversation_id ` set (conversations (committed (snd (store_conversation f p cid m r sc se ip conn))))
          \<and> cid \<in> th_conversation_id ` set (triage_history (committed (snd (store_conversation f p cid m r sc se ip conn))))
          \<and> cid \<in> cv_conversation_id ` set (conversations (working (snd (store_conversation f p cid m r sc se ip conn))))
          \<and> cid \<in> th_conversation_id ` set (triage_history (working (snd (store_conversation f p cid m r sc se ip conn)))))"
proof (cases "fst (store_conversation f p cid m r sc se ip conn)")
  case True
  from store_conversation_stored [OF True] obtain c where
    c: "snd (store_conversation f p cid m r sc se ip conn)
          = log_audit_event (store_audit f) ''conversation_stored'' (Some p)
              (Some (''Conversation '' @ cid @ '' stored'')) ip c"
       "committed c = working c"
       "cid \<in> cv_conversation_id ` set (conversations (working c))"
       "cid \<in> th_conversation_id ` set (triage_history (working c))"
    by blast
  have "\<not> (conversation_insert_fails f \<or> triage_insert_fails f \<or> store_commit_fails f)"
    using True by (simp add: store_conversation_ok_iff)
  then show ?thesis
    using True c(2-4)
    by (simp add: c(1) log_audit_event_keeps)
next
  case False
  then show ?thesis
    by (simp add: store_conversation_failed rollback_def)
qed

lemma log_audit_event_row:
  "\<not> audit_insert_fails g \<Longrightarrow>
     \<lparr>au_patient_id = p, au_action = a, au_details = d, au_user_id = None,
      au_ip_address = ip, au_user_agent = None, au_success = True\<rparr>
       \<in> set (audit_log (working (log_audit_event g a p d ip c)))"
  "\<not> audit_insert_fails g \<Longrightarrow> \<not> audit_commit_fails g \<Longrightarrow>
     \<lparr>au_patient_id = p, au_action = a, au_details = d, au_user_id = None,
      au_ip_address = ip, au_user_agent = None, au_success = True\<rparr>
       \<in> set (audit_log (committed (log_audit_event g a p d ip c)))"
  "audit_insert_fails g \<Longrightarrow> log_audit_event g a p d ip c = c"
  by (simp_all add: log_audit_event_def insert_audit_def commit_def)

theorem store_conversation_atomic_witness:
  "triage_insert_fails triage_insert_lost
   \<and> \<not> fst (store_conversation triage_insert_lost ''patient-1'' ''c-1'' headache_message
              headache_response 4 None None empty_connection)
   \<and> working (snd (store_conversation triage_insert_lost ''patient-1'' ''c-1'' headache_message
                     headache_response 4 None None empty_connection)) = empty_tables
   \<and> committed (snd (store_conversation triage_insert_lost ''patient-1'' ''c-1''
                       headache_message headache_response 4 None None empty_connection))
      = empty_tables
   \<and> fst (store_conversation no_store_faults ''patient-1'' ''c-1'' headache_message
            headache_response 4 None None empty_connection)
   \<and> ''c-1'' \<in> cv_conversation_id ` set (conversations (committed (snd
         (store_conversation no_store_faults ''patient-1'' ''c-1'' headache_message
            headache_response 4 None None empty_connection))))
   \<and> ''c-1'' \<in> th_conversation_id ` set (triage_history (committed (snd
         (store_conversation no_store_faults ''patient-1'' ''c-1'' headache_message
            headache_response 4 None None empty_connection))))"
proof -
  have lost: "triage_insert_fails triage_insert_lost"
    by (simp add: triage_insert_lost_def)
  have ok: "fst (store_conversation no_store_faults ''patient-1'' ''c-1'' headache_message
            headache_response 4 None None empty_connection)"
    by (simp add: store_conversation_ok_iff no_store_faults_def empty_connection_def
          empty_tables_def)
  have e: "committed empty_connection = empty_tables"
    by (simp add: empty_connection_def)
  from store_conversation_atomic [of triage_insert_lost "''patient-1''" "''c-1''"
         headache_message headache_response 4 None None empty_connection]
       store_conversation_atomic [of no_store_faults "''patient-1''" "''c-1''"
         headache_message headache_response 4 None None empty_connection]
       lost ok e
  show ?thesis
    by simp
qed

text \<open>
  C8, as the specification words it, fails: with the audit insert refused, the conversation
  of the patient is committed and visible while no audit row names the patient.
\<close>

theorem conversation_without_audit_counterexample:
  "cv_patient_id ` set (conversations (committed (snd
       (store_conversation audit_insert_lost ''patient-2'' ''c-2'' headache_message
          headache_response 4 None None empty_connection)))) = {''patient-2''}
   \<and> Some ''patient-2'' \<notin> au_patient_id ` set (audit_log (working (snd
       (store_conversation audit_insert_lost ''patient-2'' ''c-2'' headache_message
          headache_response 4 None None empty_connection))))
   \<and> Some ''patient-2'' \<notin> au_patient_id ` set (audit_log (committed (snd
       (store_conversation audit_insert_lost ''patient-2'' ''c-2'' headache_message
          headache_response 4 None None empty_connection))))"
  by (simp add: store_defs log_audit_event_def insert_audit_def audit_insert_lost_def
        no_store_faults_def no_audit_faults_def empty_connection_def empty_tables_def)

text \<open>
  C8, amended. A successful \<open>store_conversation\<close> is followed by one attempt to append an
  audit row for the patient: the row is in the log of this connection when the audit insert
  is accepted, and committed when its commit is accepted too. The attempt is best-effort:
  whatever happens to it, the call returns \<open>True\<close> and the same conversations are committed.
\<close>

theorem store_conversation_audit:
  assumes "fst (store_conversation f p cid m r sc se ip conn)"
  shows "(\<not> audit_insert_fails (store_audit f)
            \<longrightarrow> (\<exists>a \<in> set (audit_log (working (snd (store_conversation f p cid m r sc se ip conn)))).
                   au_patient_id a = Some p \<and> au_action a = ''conversation_stored''))
         \<and> (\<not> audit_insert_fails (store_audit f) \<and> \<not> audit_commit_fails (store_audit f)
            \<longrightarrow> (\<exists>a \<in> set (audit_log (committed (snd (store_conversation f p cid m r sc se ip conn)))).
                   au_patient_id a = Some p \<and> au_action a = ''conversation_stored''))
         \<and> fst (store_conversation (f\<lparr>store_audit := g\<rparr>) p cid m r sc se ip conn)
         \<and> conversations (committed (snd (store_conversation (f\<lparr>store_audit := g\<rparr>) p cid m r sc se ip conn)))
             = conversations (committed (snd (store_conversation f p cid m r sc se ip conn)))"
proof -
  from store_conversation_stored [OF assms] obtain c where
    c: "snd (store_conversation f p cid m r sc se ip conn)
               = log_audit_event (store_audit f) ''conversation_stored'' (Some p)
                   (Some (''Conversation '' @ cid @ '' stored'')) ip c"
       "committed c = working c"
    by blast
  have ok: "fst (store_conversation (f\<lparr>store_audit := g\<rparr>) p cid m r sc se ip conn)"
    using assms by (simp add: store_conversation_ok_iff)
  have same: "conversations (committed (snd (store_conversation (f\<lparr>store_audit := g\<rparr>) p cid m r sc se ip conn)))
             = conversations (committed (snd (store_conversation f p cid m r sc se ip conn)))"
    using assms by (auto simp: store_defs log_audit_event_def insert_audit_def split: if_splits)
  show ?thesis
    using log_audit_event_row(1,2) [of "store_audit f" "Some p" "''conversation_stored''"
        "Some (''Conversation '' @ cid @ '' stored'')" ip c] ok same
    unfolding c(1)
    by (intro conjI impI) (force+)
qed

theorem store_conversation_audit_witness:
  "fst (store_conversation no_store_faults ''patient-1'' ''c-1'' headache_message
          headache_response 4 None None empty_connection)
   \<and> \<not> audit_insert_fails (store_audit no_store_faults)
   \<and> \<not> audit_commit_fails (store_audit no_store_faults)
   \<and> Some ''patient-1'' \<in> au_patient_id ` set (audit_log (committed (snd
          (store_conversation no_store_faults ''patient-1'' ''c-1'' headache_message
             headache_response 4 None None empty_connection))))
   \<and> fst (store_conversation audit_insert_lost ''patient-1'' ''c-1'' headache_message
            headache_response 4 None None empty_connection)"
proof -
  have ok: "fst (store_conversation no_store_faults ''patient-1'' ''c-1'' headache_message
            headache_response 4 None None empty_connection)"
    by (simp add: store_conversation_ok_iff no_store_faults_def empty_connection_def
          empty_tables_def)
  have nf: "\<not> audit_insert_fails (store_audit no_store_faults)"
    "\<not> audit_commit_fails (store_audit no_store_faults)"
    by (simp_all add: no_store_faults_def no_audit_faults_def)
  from store_conversation_audit [OF ok,
         of "\<lparr>audit_insert_fails = True, audit_commit_fails = False\<rparr>"] ok nf
  show ?thesis
    by (auto simp: audit_insert_lost_def intro: rev_image_eqI)
qed


section \<open>Properties of the sessions\<close>

lemma utc_session_row:
  "sessions (working utc_session_store) =
     [\<lparr>session_id = ''session-1'', se_patient_id = ''patient-1'', session_token = ''token-1'',
       expires_at = ''2024-01-01 12:00:00.500000'', active = True, se_ip_address = None,
       se_user_agent = None\<rparr>]"
  by (simp add: utc_session_store_def create_session_def insert_session_def commit_def
        log_audit_event_def insert_audit_def no_session_faults_def no_audit_faults_def
        empty_connection_def empty_tables_def isoformat_space_def zero_pad_def digit_char_def utc_expiry_def)

lemma tokyo_session_row:
  "sessions (working tokyo_session_store) =
     [\<lparr>session_id = ''session-2'', se_patient_id = ''patient-2'', session_token = ''token-2'',
       expires_at = ''2024-01-01 21:00:00'', active = True, se_ip_address = None,
       se_user_agent = None\<rparr>]"
  by (simp add: tokyo_session_store_def create_session_def insert_session_def commit_def
        log_audit_event_def insert_audit_def no_session_faults_def no_audit_faults_def
        empty_connection_def empty_tables_def isoformat_space_def zero_pad_def digit_char_def tokyo_expiry_def)

lemma new_york_session_row:
  "sessions (working new_york_session_store) =
     [\<lparr>session_id = ''session-3'', se_patient_id = ''patient-3'', session_token = ''token-3'',
       expires_at = ''2024-01-01 07:00:00'', active = True, se_ip_address = None,
       se_user_agent = None\<rparr>]"
  by (simp add: new_york_session_store_def create_session_def insert_session_def commit_def
        log_audit_event_def insert_audit_def no_session_faults_def no_audit_faults_def
        empty_connection_def empty_tables_def isoformat_space_def zero_pad_def digit_char_def
        new_york_expiry_def)

lemma timestamps:
  "current_timestamp utc_after_expiry = ''2024-01-01 12:00:00''"
  "current_timestamp utc_second_after_noon = ''2024-01-01 12:00:01''"
  "current_timestamp utc_second_before_noon = ''2024-01-01 11:59:59''"
  by (simp_all add: current_timestamp_def zero_pad_def digit_char_def utc_after_expiry_def
        utc_second_after_noon_def utc_second_before_noon_def)

text \<open>
  Whenever the expiry has a fraction of a second, the session is verified during the whole
  second in which it expires, also after the expiry instant.
\<close>

lemma text_less_extension: "text_less xs (xs @ y # ys)"
  by (induction xs) simp_all

lemma text_less_same_prefix: "text_less (xs @ zs) (xs @ ws) = text_less zs ws"
  by (induction xs) simp_all

lemma expiry_second_granted:
  assumes "dt_year now = dt_year e" and "dt_month now = dt_month e"
    and "dt_day now = dt_day e" and "dt_hour now = dt_hour e"
    and "dt_minute now = dt_minute e" and "dt_second now = dt_second e"
    and "dt_microsecond e \<noteq> 0"
  shows "text_less (current_timestamp now) (isoformat_space e)"
  using assms
  by (simp add: current_timestamp_def isoformat_space_def text_less_same_prefix
        text_less_extension)

text \<open>
  C3 fails on the code. The stored expiry is the text of the caller's wall clock with its
  microseconds, and it is compared with the whole seconds of UTC. On a UTC host a session is
  still verified three tenths of a second after it expired; a session handed over by a host
  at UTC+9 is still verified one second after its expiry; one handed over by a host at UTC-5
  is refused one second before its expiry.
\<close>

theorem verify_session_grants_past_expiry:
  "earlier utc_expiry utc_after_expiry
   \<and> verify_session False ''patient-1'' ''token-1'' utc_after_expiry utc_session_store
   \<and> verify_session False ''patient-2'' ''token-2'' utc_second_after_noon tokyo_session_store
   \<and> \<not> verify_session False ''patient-3'' ''token-3'' utc_second_before_noon
         new_york_session_store"
proof -
  have "earlier utc_expiry utc_after_expiry"
    by (simp add: earlier_def utc_expiry_def utc_after_expiry_def)
  then show ?thesis
    by (simp add: verify_session_def utc_session_row tokyo_session_row new_york_session_row
          timestamps)
qed

end
